theory Spec2Isabelle
  imports Main
begin

section \<open>Data model (src/types/mcp.ts, index.ts)\<close>

text \<open>
  The interfaces \<^verbatim>\<open>MCPConfig\<close>, \<^verbatim>\<open>MCPClient\<close> and \<^verbatim>\<open>ExecutionResult\<close> as records.
  Optional members are \<open>option\<close>s. A JSON value (\<^verbatim>\<open>any\<close>) is the datatype \<open>json\<close>:
  \<open>JNum\<close> carries the integer-valued numbers, which are the only ones that can be keys of
  \<^verbatim>\<open>pendingRequests\<close>; the strings are over the code units below 256; an object is the
  list of its members in their order.
\<close>

datatype json =
    JNull
  | JBool bool
  | JNum int
  | JStr string
  | JArr "json list"
  | JObj "(string \<times> json) list"

record Container =
  cname :: string
  command :: "string list option"
  workdir :: "string option"

record HealthCheck =
  interval :: "nat option"
  timeout :: "nat option"

record MCPConfig =
  name :: string
  capabilities :: "string list"
  container :: Container
  healthCheck :: "HealthCheck option"

text \<open>
  A \<^verbatim>\<open>ChildProcess\<close> is seen by the code only through its streams; \<open>stdin\<close> says whether
  \<^verbatim>\<open>process.stdin\<close> is non-null.
\<close>

record ChildProcess =
  stdin :: bool

text \<open>
  An entry of \<^verbatim>\<open>pendingRequests\<close> holds \<^verbatim>\<open>{resolve, reject, timeout}\<close>. The promise and
  the timer of a call are named by the request id under which the entry was made, which
  names one call as long as no id is given twice.
\<close>

record PendingRequest =
  promise :: nat
  timer :: nat

text \<open>
  The text read from a backend is a JavaScript string, a sequence of UTF-16 code units;
  a code unit is kept as its number.
\<close>

type_synonym codeunits = "nat list"

record MCPClient =
  config :: MCPConfig
  process :: "ChildProcess option"
  isReady :: bool
  requestId :: nat
  pendingRequests :: "nat \<rightharpoonup> PendingRequest"
  lastHealthCheck :: "nat option"
  messageBuffer :: codeunits

text \<open>
  \<^verbatim>\<open>mcpClients\<close> is a JavaScript \<^verbatim>\<open>Map\<close>, iterated in insertion order by the health
  checks and listings: an association list with \<open>mapGet\<close> and \<open>mapSet\<close> (\<^verbatim>\<open>set\<close> on a key
  already present keeps its place). \<^verbatim>\<open>reconnectAttempts\<close> is only read by key.
\<close>

fun mapGet :: "('k \<times> 'v) list \<Rightarrow> 'k \<Rightarrow> 'v option" where
  "mapGet [] k = None"
| "mapGet ((k', v) # kvs) k = (if k' = k then Some v else mapGet kvs k)"

fun mapSet :: "('k \<times> 'v) list \<Rightarrow> 'k \<Rightarrow> 'v \<Rightarrow> ('k \<times> 'v) list" where
  "mapSet [] k v = [(k, v)]"
| "mapSet ((k', v') # kvs) k v = (if k' = k then (k, v) # kvs else (k', v') # mapSet kvs k v)"

record Orchestrator =
  mcpClients :: "(string \<times> MCPClient) list"
  reconnectAttempts :: "string \<rightharpoonup> nat"

section \<open>Reconnection with backoff (index.ts, scheduleReconnect)\<close>

definition maxReconnectAttempts :: nat where
  "maxReconnectAttempts = 5"

text \<open>\<^verbatim>\<open>this.reconnectAttempts.get(client.config.name) || 0\<close>\<close>

definition getAttempts :: "Orchestrator \<Rightarrow> string \<Rightarrow> nat" where
  "getAttempts orch nm = (case reconnectAttempts orch nm of None \<Rightarrow> 0 | Some a \<Rightarrow> a)"

text \<open>
  The timer that \<^verbatim>\<open>scheduleReconnect\<close> arms: its delay in milliseconds and the value of
  \<^verbatim>\<open>attempts\<close> its callback has captured.
\<close>

datatype reconnect_timer = ReconnectTimer (rt_delay: nat) (rt_attempts: nat)

text \<open>
  \<^verbatim>\<open>scheduleReconnect(client)\<close> up to the \<^verbatim>\<open>setTimeout\<close>: \<open>None\<close> on either early return
  (the client still has a process; the attempts are exhausted), else the timer armed.
\<close>

definition scheduleReconnect :: "Orchestrator \<Rightarrow> MCPClient \<Rightarrow> reconnect_timer option" where
  "scheduleReconnect orch client =
     (if process client \<noteq> None then None
      else
        let attempts = getAttempts orch (name (config client)) in
        if attempts \<ge> maxReconnectAttempts then None
        else Some (ReconnectTimer (min (5000 * 2 ^ attempts) 60000) attempts))"

text \<open>
  The timer's callback. \<open>outcome\<close> is what \<^verbatim>\<open>await this.connectToDockerMCP(client.config)\<close>
  did: \<open>Some c\<close> when it returned, having registered the fresh client \<open>c\<close> under the
  endpoint's name, \<open>None\<close> when it threw. On failure the counter becomes the captured
  \<^verbatim>\<open>attempts + 1\<close> and \<^verbatim>\<open>scheduleReconnect\<close> is called again on the same client object.
\<close>

definition reconnectCallback ::
  "Orchestrator \<Rightarrow> MCPClient \<Rightarrow> nat \<Rightarrow> MCPClient option \<Rightarrow> Orchestrator \<times> reconnect_timer option" where
  "reconnectCallback orch client attempts outcome =
     (let nm = name (config client) in
      case outcome of
        Some fresh \<Rightarrow>
          (orch\<lparr>mcpClients := mapSet (mcpClients orch) nm fresh,
                reconnectAttempts := (reconnectAttempts orch)(nm \<mapsto> 0)\<rparr>, None)
      | None \<Rightarrow>
          (let orch' = orch\<lparr>reconnectAttempts := (reconnectAttempts orch)(nm \<mapsto> attempts + 1)\<rparr>
           in (orch', scheduleReconnect orch' client)))"

text \<open>The delay the specification gives for the attempt numbered \<open>n\<close>.\<close>

definition backoffDelay :: "nat \<Rightarrow> nat" where
  "backoffDelay n = min (5000 * 2 ^ n) 60000"

section \<open>JavaScript built-ins the code relies on\<close>

text \<open>
  \<^verbatim>\<open>++client.requestId\<close> on a JavaScript number (an IEEE double): exact up to \<open>2 ^ 53\<close>,
  where adding one rounds back to \<open>2 ^ 53\<close>. A counter that starts at zero never holds a
  value above \<open>2 ^ 53\<close>.
\<close>

definition js_incr :: "nat \<Rightarrow> nat" where
  "js_incr n = (if n < 2 ^ 53 then n + 1 else n)"

text \<open>Truthiness of a value; \<open>None\<close> is \<^verbatim>\<open>undefined\<close>.\<close>

fun truthy :: "json option \<Rightarrow> bool" where
  "truthy None = False"
| "truthy (Some JNull) = False"
| "truthy (Some (JBool b)) = b"
| "truthy (Some (JNum n)) = (n \<noteq> 0)"
| "truthy (Some (JStr s)) = (s \<noteq> [])"
| "truthy (Some (JArr xs)) = True"
| "truthy (Some (JObj kvs)) = True"

text \<open>Reading a property; a value that is not an object has none of the names used here.\<close>

fun jget :: "json \<Rightarrow> string \<Rightarrow> json option" where
  "jget (JObj kvs) k = mapGet kvs k"
| "jget v k = None"

text \<open>Decimal digits of a number; \<open>digitChar\<close> is used on digits below 16 only.\<close>

definition digitChar :: "nat \<Rightarrow> char" where
  "digitChar d = ''0123456789abcdef'' ! d"

fun digitsOf :: "nat \<Rightarrow> string" where
  "digitsOf n = (if n < 10 then [digitChar n] else digitsOf (n div 10) @ [digitChar (n mod 10)])"

declare digitsOf.simps [simp del]

definition showInt :: "int \<Rightarrow> string" where
  "showInt i = (if i < 0 then CHR ''-'' # digitsOf (nat (- i)) else digitsOf (nat i))"

text \<open>
  \<^verbatim>\<open>JSON.stringify\<close> without indentation: string escapes, then the values. Integers are
  printed in decimal, as JavaScript prints the integers the code serialises (request
  ids).
\<close>

definition escapeChar :: "char \<Rightarrow> string" where
  "escapeChar c =
     (if c = CHR 0x22 then [CHR 0x5C, CHR 0x22]
      else if c = CHR 0x5C then [CHR 0x5C, CHR 0x5C]
      else if c = CHR 0x08 then [CHR 0x5C, CHR ''b'']
      else if c = CHR 0x0C then [CHR 0x5C, CHR ''f'']
      else if c = CHR 0x0A then [CHR 0x5C, CHR ''n'']
      else if c = CHR 0x0D then [CHR 0x5C, CHR ''r'']
      else if c = CHR 0x09 then [CHR 0x5C, CHR ''t'']
      else if (of_char c :: nat) < 0x20
        then [CHR 0x5C, CHR ''u'', CHR ''0'', CHR ''0'',
              digitChar (of_char c div 16), digitChar (of_char c mod 16)]
      else [c])"

definition quote :: "string \<Rightarrow> string" where
  "quote s = [CHR 0x22] @ concat (map escapeChar s) @ [CHR 0x22]"

fun commaJoin :: "string list \<Rightarrow> string" where
  "commaJoin [] = []"
| "commaJoin [x] = x"
| "commaJoin (x # y # ys) = x @ '','' @ commaJoin (y # ys)"

fun stringify :: "json \<Rightarrow> string" where
  "stringify JNull = ''null''"
| "stringify (JBool b) = (if b then ''true'' else ''false'')"
| "stringify (JNum i) = showInt i"
| "stringify (JStr s) = quote s"
| "stringify (JArr xs) = ''['' @ commaJoin (map stringify xs) @ '']''"
| "stringify (JObj kvs) =
     ''{'' @ commaJoin (map (\<lambda>kv. quote (fst kv) @ '':'' @ stringify (snd kv)) kvs) @ ''}''"

text \<open>
  \<^verbatim>\<open>new Error(x).message\<close>, that is \<^verbatim>\<open>String(x)\<close>: a string is itself, an object prints as
  \<^verbatim>\<open>[object Object]\<close>, an array joins its elements with commas, \<^verbatim>\<open>null\<close> elements empty.
\<close>

fun String_of :: "json \<Rightarrow> string" where
  "String_of JNull = ''null''"
| "String_of (JBool b) = (if b then ''true'' else ''false'')"
| "String_of (JNum i) = showInt i"
| "String_of (JStr s) = s"
| "String_of (JArr xs) = commaJoin (map (\<lambda>x. if x = JNull then [] else String_of x) xs)"
| "String_of (JObj kvs) = ''[object Object]''"

text \<open>
  \<^verbatim>\<open>String.prototype.split("\n")\<close> on code units (the newline is 10): never empty, the
  last element is what follows the last newline. \<^verbatim>\<open>trim\<close> removes white space and line
  terminators at both ends.
\<close>

fun splitNewline :: "codeunits \<Rightarrow> codeunits list" where
  "splitNewline [] = [[]]"
| "splitNewline (c # cs) =
     (if c = 10 then [] # splitNewline cs
      else (c # hd (splitNewline cs)) # tl (splitNewline cs))"

definition isWhiteSpace :: "nat \<Rightarrow> bool" where
  "isWhiteSpace c \<longleftrightarrow>
     c \<in> {0x09, 0x0A, 0x0B, 0x0C, 0x0D, 0x20, 0xA0, 0x1680, 0x2028, 0x2029, 0x202F, 0x205F,
           0x3000, 0xFEFF}
     \<or> (0x2000 \<le> c \<and> c \<le> 0x200A)"

definition trim :: "codeunits \<Rightarrow> codeunits" where
  "trim s = rev (dropWhile isWhiteSpace (rev (dropWhile isWhiteSpace s)))"

text \<open>
  \<^verbatim>\<open>Buffer.prototype.toString()\<close>: the bytes of one chunk decoded as UTF-8, on its own.
  The decoder is the standard one: a lead byte sets how many continuation bytes are
  needed and the range of the next one; a byte outside the range ends the sequence with
  U+FFFD and is read again as a first byte; a sequence cut by the end of the chunk gives
  U+FFFD; a code point from \<open>0x10000\<close> on is written as a surrogate pair.
\<close>

record utf8 =
  codePoint :: nat
  bytesSeen :: nat
  bytesNeeded :: nat
  lower :: nat
  upper :: nat

definition utf8Start :: utf8 where
  "utf8Start = \<lparr>codePoint = 0, bytesSeen = 0, bytesNeeded = 0, lower = 0x80, upper = 0xBF\<rparr>"

definition firstByte :: "nat \<Rightarrow> codeunits \<times> utf8" where
  "firstByte b =
     (if b \<le> 0x7F then ([b], utf8Start)
      else if 0xC2 \<le> b \<and> b \<le> 0xDF
        then ([], utf8Start\<lparr>bytesNeeded := 1, codePoint := b mod 32\<rparr>)
      else if 0xE0 \<le> b \<and> b \<le> 0xEF
        then ([], utf8Start\<lparr>bytesNeeded := 2, codePoint := b mod 16,
                            lower := (if b = 0xE0 then 0xA0 else 0x80),
                            upper := (if b = 0xED then 0x9F else 0xBF)\<rparr>)
      else if 0xF0 \<le> b \<and> b \<le> 0xF4
        then ([], utf8Start\<lparr>bytesNeeded := 3, codePoint := b mod 8,
                            lower := (if b = 0xF0 then 0x90 else 0x80),
                            upper := (if b = 0xF4 then 0x8F else 0xBF)\<rparr>)
      else ([0xFFFD], utf8Start))"

definition utf16 :: "nat \<Rightarrow> codeunits" where
  "utf16 cp =
     (if cp < 0x10000 then [cp]
      else [0xD800 + (cp - 0x10000) div 1024, 0xDC00 + (cp - 0x10000) mod 1024])"

fun utf8Run :: "utf8 \<Rightarrow> nat list \<Rightarrow> codeunits" where
  "utf8Run st [] = (if bytesNeeded st \<noteq> 0 then [0xFFFD] else [])"
| "utf8Run st (b # bs) =
     (if bytesNeeded st = 0 then fst (firstByte b) @ utf8Run (snd (firstByte b)) bs
      else if b < lower st \<or> upper st < b
        then 0xFFFD # fst (firstByte b) @ utf8Run (snd (firstByte b)) bs
      else if bytesSeen st + 1 \<noteq> bytesNeeded st
        then utf8Run (st\<lparr>codePoint := codePoint st * 64 + b mod 64,
                          bytesSeen := bytesSeen st + 1, lower := 0x80, upper := 0xBF\<rparr>) bs
      else utf16 (codePoint st * 64 + b mod 64) @ utf8Run utf8Start bs)"

definition Buffer_toString :: "nat list \<Rightarrow> codeunits" where
  "Buffer_toString bytes = utf8Run utf8Start bytes"

section \<open>Correlation engine (mcp_client.ts; index.ts sendMCPRequest, handleMCPResponse)\<close>

text \<open>
  What a function does to the world outside the client object, in the order it does it.
  A timer is named by the request id its callback has captured and carries the message
  that callback rejects with; \<open>Resolve\<close> and \<open>Reject\<close> are calls of the \<^verbatim>\<open>resolve\<close> and
  \<^verbatim>\<open>reject\<close> functions of the promise made for that request id (\<open>None\<close> is
  \<^verbatim>\<open>undefined\<close>).
\<close>

datatype effect =
    Write string
  | SetTimeout nat nat string
  | ClearTimeout nat
  | Resolve nat "json option"
  | Reject nat string

text \<open>How an awaited promise ends.\<close>

datatype outcome = Resolved "json option" | Rejected string

text \<open>The client literal of \<^verbatim>\<open>connectToMCP\<close> and \<^verbatim>\<open>connectToDockerMCP\<close>.\<close>

definition newClient :: "MCPConfig \<Rightarrow> ChildProcess option \<Rightarrow> MCPClient" where
  "newClient cfg p =
     \<lparr>config = cfg, process = p, isReady = False, requestId = 0,
      pendingRequests = Map.empty, lastHealthCheck = None, messageBuffer = []\<rparr>"

text \<open>\<^verbatim>\<open>client.process?.stdin\<close> is non-null.\<close>

definition hasStdin :: "MCPClient \<Rightarrow> bool" where
  "hasStdin client = (case process client of None \<Rightarrow> False | Some p \<Rightarrow> stdin p)"

text \<open>\<^verbatim>\<open>client.config.healthCheck?.timeout || 30000\<close>\<close>

definition timeoutMs :: "MCPClient \<Rightarrow> nat" where
  "timeoutMs client =
     (case healthCheck (config client) of
        None \<Rightarrow> 30000
      | Some h \<Rightarrow> (case timeout h of None \<Rightarrow> 30000 | Some t \<Rightarrow> if t = 0 then 30000 else t))"

text \<open>\<^verbatim>\<open>{ jsonrpc: "2.0", id: requestId, method, params }\<close>\<close>

definition mkRequest :: "nat \<Rightarrow> string \<Rightarrow> json \<Rightarrow> json" where
  "mkRequest rid method params =
     JObj [(''jsonrpc'', JStr ''2.0''), (''id'', JNum (int rid)),
           (''method'', JStr method), (''params'', params)]"

text \<open>
  \<^verbatim>\<open>sendMCPRequest\<close>, the promise executor. The result is the client after it, then
  \<open>Inl msg\<close> when the promise was rejected at once (no stdin) or \<open>Inr id\<close> when the call
  with that id is now pending, then the effects. The callbacks it installs are
  \<open>onTimeout\<close> and \<open>onWriteError\<close> below.
\<close>

definition sendMCPRequest ::
  "MCPClient \<Rightarrow> string \<Rightarrow> json \<Rightarrow> MCPClient \<times> (string + nat) \<times> effect list" where
  "sendMCPRequest client method params =
     (if \<not> hasStdin client
      then (client, Inl (''MCP '' @ name (config client) @ '' not connected''), [])
      else
        let rid = js_incr (requestId client);
            request = mkRequest rid method params;
            client' = client\<lparr>requestId := rid,
                        pendingRequests :=
                          (pendingRequests client)(rid \<mapsto> \<lparr>promise = rid, timer = rid\<rparr>)\<rparr>
        in (client', Inr rid,
            [SetTimeout rid (timeoutMs client)
               (''Timeout for '' @ method @ '' in '' @ name (config client)),
             Write (stringify request @ [CHR 0x0A])]))"

text \<open>The timer callback: \<^verbatim>\<open>pendingRequests.delete(requestId); reject(new Error(...))\<close>.\<close>

definition onTimeout :: "MCPClient \<Rightarrow> nat \<Rightarrow> string \<Rightarrow> MCPClient \<times> effect list" where
  "onTimeout client rid msg =
     (client\<lparr>pendingRequests := (pendingRequests client)(rid := None)\<rparr>, [Reject rid msg])"

text \<open>The write callback of \<^verbatim>\<open>sendMCPRequest\<close>, called with an error.\<close>

definition onWriteError :: "MCPClient \<Rightarrow> nat \<Rightarrow> string \<Rightarrow> MCPClient \<times> effect list" where
  "onWriteError client rid err =
     (client\<lparr>pendingRequests := (pendingRequests client)(rid := None)\<rparr>,
      [ClearTimeout rid, Reject rid err])"

text \<open>
  \<^verbatim>\<open>sendRequest\<close> of the modular orchestrator (used for \<^verbatim>\<open>ping\<close> and \<^verbatim>\<open>tools/list\<close>): no
  check of stdin before the id is taken, the payload is the serialisation followed by the
  empty string, and the write is skipped when there is no stdin.
\<close>

definition sendRequest ::
  "MCPClient \<Rightarrow> string \<Rightarrow> json \<Rightarrow> MCPClient \<times> nat \<times> effect list" where
  "sendRequest client method params =
     (let rid = js_incr (requestId client);
          payload = stringify (mkRequest rid method params) @ [];
          client' = client\<lparr>requestId := rid,
                      pendingRequests :=
                        (pendingRequests client)(rid \<mapsto> \<lparr>promise = rid, timer = rid\<rparr>)\<rparr>
      in (client', rid,
          SetTimeout rid (timeoutMs client) (''RPC timeout for '' @ method)
            # (if hasStdin client then [Write payload] else [])))"

text \<open>
  \<^verbatim>\<open>response.id && client.pendingRequests.has(response.id)\<close>: the id is a non-zero number
  that is a key of the map. The result is the key.
\<close>

definition matchingId :: "MCPClient \<Rightarrow> json \<Rightarrow> nat option" where
  "matchingId client response =
     (case jget response ''id'' of
        Some (JNum n) \<Rightarrow>
          if 0 < n \<and> nat n \<in> dom (pendingRequests client) then Some (nat n) else None
      | _ \<Rightarrow> None)"

text \<open>\<^verbatim>\<open>response.error.message || "MCP Error"\<close>, as the message of the \<^verbatim>\<open>Error\<close>.\<close>

definition errorMessage :: "json \<Rightarrow> string" where
  "errorMessage e =
     (if truthy (jget e ''message'') then
        (case jget e ''message'' of Some m \<Rightarrow> String_of m | None \<Rightarrow> ''MCP Error'')
      else ''MCP Error'')"

text \<open>
  \<^verbatim>\<open>handleMCPResponse\<close>. When \<^verbatim>\<open>response\<close> is \<^verbatim>\<open>null\<close> the property access throws inside the
  \<^verbatim>\<open>try\<close> of \<^verbatim>\<open>processMessages\<close>, which logs it: nothing changes then either.
\<close>

definition handleMCPResponse :: "MCPClient \<Rightarrow> json \<Rightarrow> MCPClient \<times> effect list" where
  "handleMCPResponse client response =
     (case matchingId client response of
        None \<Rightarrow> (client, [])
      | Some rid \<Rightarrow>
          (case pendingRequests client rid of
             None \<Rightarrow> (client, [])
           | Some request \<Rightarrow>
               (client\<lparr>pendingRequests := (pendingRequests client)(rid := None)\<rparr>,
                [ClearTimeout (timer request),
                 (if truthy (jget response ''error'')
                  then Reject (promise request)
                         (case jget response ''error'' of
                            Some e \<Rightarrow> errorMessage e | None \<Rightarrow> ''MCP Error'')
                  else Resolve (promise request) (jget response ''result''))])))"

text \<open>
  \<^verbatim>\<open>handleResponse\<close> of the modular orchestrator: \<^verbatim>\<open>pendingRequests.get(id)\<close> with no test
  of the id before it, and \<^verbatim>\<open>new Error(error.message)\<close>, whose message is empty when
  \<^verbatim>\<open>error.message\<close> is \<^verbatim>\<open>undefined\<close>.
\<close>

definition handleResponse :: "MCPClient \<Rightarrow> json \<Rightarrow> MCPClient \<times> effect list" where
  "handleResponse client message =
     (case jget message ''id'' of
        Some (JNum n) \<Rightarrow>
          (if n < 0 then (client, [])
           else
             (case pendingRequests client (nat n) of
                None \<Rightarrow> (client, [])
              | Some pending \<Rightarrow>
                  (client\<lparr>pendingRequests := (pendingRequests client)(nat n := None)\<rparr>,
                   [ClearTimeout (timer pending),
                    (if truthy (jget message ''error'')
                     then Reject (promise pending)
                            (case jget message ''error'' of
                               Some e \<Rightarrow>
                                 (case jget e ''message'' of
                                    Some m \<Rightarrow> String_of m | None \<Rightarrow> [])
                             | None \<Rightarrow> [])
                     else Resolve (promise pending) (jget message ''result''))])))
      | _ \<Rightarrow> (client, []))"

text \<open>Successive calls of \<^verbatim>\<open>sendMCPRequest\<close> on one client, with what each returned.\<close>

fun sendAll :: "MCPClient \<Rightarrow> (string \<times> json) list \<Rightarrow> MCPClient \<times> (string + nat) list" where
  "sendAll client [] = (client, [])"
| "sendAll client ((method, params) # rest) =
     (case sendMCPRequest client method params of
        (client1, r, effs) \<Rightarrow>
          (case sendAll client1 rest of (client2, rs) \<Rightarrow> (client2, r # rs)))"

section \<open>Fan-out executor (executeTask, step 4 of orchestrateTask)\<close>

record ExecutionResult =
  stepId :: string
  mcp :: string
  tool :: string
  status :: string
  result :: "json option"
  error :: "string option"
  duration :: nat

text \<open>The two result literals of \<^verbatim>\<open>executeTask\<close>; \<open>d\<close> is \<^verbatim>\<open>Date.now() - startTime\<close>.\<close>

definition errorResult :: "string \<Rightarrow> string \<Rightarrow> string \<Rightarrow> nat \<Rightarrow> ExecutionResult" where
  "errorResult mcpName toolName msg d =
     \<lparr>stepId = mcpName @ ''_'' @ toolName, mcp = mcpName, tool = toolName,
      status = ''error'', result = None, error = Some msg, duration = d\<rparr>"


text \<open>
  \<^verbatim>\<open>executeTask\<close> up to its \<^verbatim>\<open>await\<close>: \<open>Inl r\<close> when it is already decided (the client is
  missing or not ready, or \<^verbatim>\<open>sendMCPRequest\<close> rejected at once and the \<^verbatim>\<open>catch\<close> built the
  result), \<open>Inr id\<close> when it waits for the call with that id. The client object is
  changed in place, so the entry of the map changes with it.
\<close>

definition executeTask_start ::
  "Orchestrator \<Rightarrow> string \<Rightarrow> string \<Rightarrow> json \<Rightarrow> nat
     \<Rightarrow> Orchestrator \<times> (ExecutionResult + nat) \<times> effect list" where
  "executeTask_start orch mcpName toolName params d =
     (case mapGet (mcpClients orch) mcpName of
        None \<Rightarrow> (orch, Inl (errorResult mcpName toolName ''MCP not available'' d), [])
      | Some client \<Rightarrow>
          if \<not> isReady client
          then (orch, Inl (errorResult mcpName toolName ''MCP not available'' d), [])
          else
            (case sendMCPRequest client ''tools/call''
                    (JObj [(''name'', JStr toolName), (''arguments'', params)]) of
               (client', Inl msg, effs) \<Rightarrow> (orch, Inl (errorResult mcpName toolName msg d), effs)
             | (client', Inr rid, effs) \<Rightarrow>
                 (orch\<lparr>mcpClients := mapSet (mcpClients orch) mcpName client'\<rparr>, Inr rid, effs)))"


text \<open>
  The environment of a batch: how the promise of each call ends (by a response, its
  timeout or a write error; the entry of the call is deleted in each case) and the
  duration each step reads from the clock.
\<close>

record env =
  reply :: "string \<Rightarrow> nat \<Rightarrow> outcome"
  elapsed :: "nat \<Rightarrow> nat"

definition settled :: "Orchestrator \<Rightarrow> string \<Rightarrow> nat \<Rightarrow> Orchestrator" where
  "settled orch mcpName rid =
     (case mapGet (mcpClients orch) mcpName of
        None \<Rightarrow> orch
      | Some client \<Rightarrow>
          orch\<lparr>mcpClients := mapSet (mcpClients orch) mcpName
                  (client\<lparr>pendingRequests := (pendingRequests client)(rid := None)\<rparr>)\<rparr>)"

record PlanStep =
  plan_mcp :: string
  plan_tool :: string
  plan_params :: json

text \<open>
  What happens during a batch, in order: \<^verbatim>\<open>executeTask\<close> is called for the step with this
  index, an effect of that call, the result of the step is stored.
\<close>

datatype trace = Called nat | Did nat effect | Stored nat


text \<open>
  The parallel branch. \<^verbatim>\<open>executionPlan.map((step) => this.executeTask(...))\<close> runs every
  call up to its \<^verbatim>\<open>await\<close>, in the order of the plan.
\<close>

fun startAll ::
  "env \<Rightarrow> Orchestrator \<Rightarrow> nat \<Rightarrow> PlanStep list
     \<Rightarrow> Orchestrator \<times> (ExecutionResult + nat) list \<times> trace list" where
  "startAll e orch i [] = (orch, [], [])"
| "startAll e orch i (step # rest) =
     (case executeTask_start orch (plan_mcp step) (plan_tool step) (plan_params step)
             (elapsed e i) of
        (orch1, started, effs) \<Rightarrow>
          (case startAll e orch1 (i + 1) rest of
             (orch2, ss, tr) \<Rightarrow> (orch2, started # ss, Called i # map (Did i) effs @ tr)))"





section \<open>On-demand health check (index.ts, checkHealth)\<close>

record HealthResult =
  h_name :: "string option"
  h_status :: string
  response_time_ms :: "nat option"
  h_error :: "string option"
  h_container :: "string option"

text \<open>
  \<^verbatim>\<open>mcp_name ? [this.mcpClients.get(mcp_name)].filter(Boolean) :
  Array.from(this.mcpClients.values())\<close>. The clients are objects of the map, so the list
  is kept as the list of their keys; \<^verbatim>\<open>mcp_name\<close> is any value of the arguments, and a
  value that is not a string is the key of no entry.
\<close>

definition mcpsToCheck :: "Orchestrator \<Rightarrow> json option \<Rightarrow> string list" where
  "mcpsToCheck orch mcp_name =
     (if truthy mcp_name then
        (case mcp_name of
           Some (JStr nm) \<Rightarrow>
             (case mapGet (mcpClients orch) nm of None \<Rightarrow> [] | Some client \<Rightarrow> [nm])
         | _ \<Rightarrow> [])
      else map fst (mcpClients orch))"

text \<open>
  The loop of \<^verbatim>\<open>checkHealth\<close>: one entry per client of the list, each probe awaited before
  the next client. The effects carry the name of the client they act on.
\<close>

fun checkClients ::
  "env \<Rightarrow> Orchestrator \<Rightarrow> nat \<Rightarrow> string list
     \<Rightarrow> Orchestrator \<times> HealthResult list \<times> (string \<times> effect) list" where
  "checkClients e orch i [] = (orch, [], [])"
| "checkClients e orch i (nm # rest) =
     (case mapGet (mcpClients orch) nm of
        None \<Rightarrow>
          (case checkClients e orch (i + 1) rest of
             (orch', rs, effs) \<Rightarrow>
               (orch',
                \<lparr>h_name = None, h_status = ''unhealthy'', response_time_ms = None,
                 h_error = Some ''Client not found'', h_container = None\<rparr> # rs,
                effs))
      | Some client \<Rightarrow>
          (let unhealthy = (\<lambda>msg.
                 \<lparr>h_name = Some (name (config client)), h_status = ''unhealthy'',
                  response_time_ms = None, h_error = Some msg,
                  h_container = Some (cname (container (config client)))\<rparr>)
           in
           if \<not> isReady client then
             (case checkClients e orch (i + 1) rest of
                (orch', rs, effs) \<Rightarrow> (orch', unhealthy ''Client not ready'' # rs, effs))
           else
             (case sendMCPRequest client ''ping'' (JObj []) of
                (client', Inl msg, effs) \<Rightarrow>
                  (case checkClients e orch (i + 1) rest of
                     (orch', rs, effs') \<Rightarrow>
                       (orch', unhealthy msg # rs, map (Pair nm) effs @ effs'))
              | (client', Inr rid, effs) \<Rightarrow>
                  (case checkClients e
                          (settled (orch\<lparr>mcpClients := mapSet (mcpClients orch) nm client'\<rparr>)
                             nm rid)
                          (i + 1) rest of
                     (orch', rs, effs') \<Rightarrow>
                       (orch',
                        (case reply e nm rid of
                           Resolved r \<Rightarrow>
                             \<lparr>h_name = Some (name (config client)), h_status = ''healthy'',
                              response_time_ms = Some (elapsed e i), h_error = None,
                              h_container = Some (cname (container (config client)))\<rparr>
                         | Rejected msg \<Rightarrow> unhealthy msg) # rs,
                        map (Pair nm) effs @ effs')))))"

definition checkHealth ::
  "env \<Rightarrow> Orchestrator \<Rightarrow> json option
     \<Rightarrow> Orchestrator \<times> HealthResult list \<times> (string \<times> effect) list" where
  "checkHealth e orch mcp_name = checkClients e orch 0 (mcpsToCheck orch mcp_name)"

section \<open>Frame reader (index.ts, the stdout handler and processMessages)\<close>

text \<open>
  The loop of \<^verbatim>\<open>processMessages\<close> over the complete lines. \<^verbatim>\<open>JSON.parse\<close> is the parameter
  \<open>parse\<close> (\<open>None\<close> when it throws). The result is the client, the messages handed to
  \<^verbatim>\<open>handleMCPResponse\<close> in order, and the effects of handling them.
\<close>

fun handleLines ::
  "(codeunits \<Rightarrow> json option) \<Rightarrow> MCPClient \<Rightarrow> codeunits list
     \<Rightarrow> MCPClient \<times> json list \<times> effect list" where
  "handleLines parse client [] = (client, [], [])"
| "handleLines parse client (line # rest) =
     (let trimmedLine = trim line in
      if trimmedLine = [] then handleLines parse client rest
      else
        (case parse trimmedLine of
           None \<Rightarrow> handleLines parse client rest
         | Some message \<Rightarrow>
             (case handleMCPResponse client message of
                (client1, effs1) \<Rightarrow>
                  (case handleLines parse client1 rest of
                     (client2, msgs, effs2) \<Rightarrow> (client2, message # msgs, effs1 @ effs2)))))"

text \<open>
  \<^verbatim>\<open>const lines = client.messageBuffer.split("\n"); client.messageBuffer = lines.pop() || "";\<close>
  and the loop.
\<close>

definition processMessages ::
  "(codeunits \<Rightarrow> json option) \<Rightarrow> MCPClient \<Rightarrow> MCPClient \<times> json list \<times> effect list" where
  "processMessages parse client =
     (let lines = splitNewline (messageBuffer client)
      in handleLines parse (client\<lparr>messageBuffer := last lines\<rparr>) (butlast lines))"

text \<open>
  The \<^verbatim>\<open>data\<close> handler of stdout: \<^verbatim>\<open>client.messageBuffer += data.toString();
  this.processMessages(client)\<close>. \<^verbatim>\<open>Buffer.toString\<close> is the parameter \<open>toString\<close>.
\<close>

definition onStdoutData ::
  "(codeunits \<Rightarrow> json option) \<Rightarrow> ('b \<Rightarrow> codeunits) \<Rightarrow> MCPClient \<Rightarrow> 'b
     \<Rightarrow> MCPClient \<times> json list \<times> effect list" where
  "onStdoutData parse toString client data =
     processMessages parse (client\<lparr>messageBuffer := messageBuffer client @ toString data\<rparr>)"

text \<open>A sequence of \<^verbatim>\<open>data\<close> events, one chunk each.\<close>

fun onStdoutChunks ::
  "(codeunits \<Rightarrow> json option) \<Rightarrow> ('b \<Rightarrow> codeunits) \<Rightarrow> MCPClient \<Rightarrow> 'b list
     \<Rightarrow> MCPClient \<times> json list \<times> effect list" where
  "onStdoutChunks parse toString client [] = (client, [], [])"
| "onStdoutChunks parse toString client (data # rest) =
     (case onStdoutData parse toString client data of
        (client1, msgs1, effs1) \<Rightarrow>
          (case onStdoutChunks parse toString client1 rest of
             (client2, msgs2, effs2) \<Rightarrow> (client2, msgs1 @ msgs2, effs1 @ effs2)))"

text \<open>The messages of a list of complete lines: trimmed, the blank ones skipped, parsed.\<close>

definition framesOf :: "(codeunits \<Rightarrow> json option) \<Rightarrow> codeunits list \<Rightarrow> json list" where
  "framesOf parse lines =
     List.map_filter parse (filter (\<lambda>l. l \<noteq> []) (map trim lines))"

section \<open>Handshake, process exit and shutdown (index.ts)\<close>

definition initializeParams :: json where
  "initializeParams =
     JObj [(''protocolVersion'', JStr ''2024-11-05''),
           (''capabilities'', JObj [(''tools'', JObj [])]),
           (''clientInfo'',
              JObj [(''name'', JStr ''docker-mcp-orchestrator''), (''version'', JStr ''1.0.0'')])]"

text \<open>Where \<^verbatim>\<open>initializeMCPClient\<close> stands: at one of its two \<^verbatim>\<open>await\<close>s, returned, or thrown.\<close>

datatype handshake =
    AwaitInitialize nat
  | AwaitInitialized nat
  | HandshakeDone
  | HandshakeFailed string

text \<open>\<^verbatim>\<open>initializeMCPClient\<close> up to its first \<^verbatim>\<open>await\<close>.\<close>

definition initializeMCPClient_start :: "MCPClient \<Rightarrow> MCPClient \<times> handshake \<times> effect list" where
  "initializeMCPClient_start client =
     (case sendMCPRequest client ''initialize'' initializeParams of
        (client', Inl msg, effs) \<Rightarrow> (client', HandshakeFailed msg, effs)
      | (client', Inr rid, effs) \<Rightarrow> (client', AwaitInitialize rid, effs))"

text \<open>
  \<^verbatim>\<open>initializeMCPClient\<close> resumed when the promise it awaits ends: after \<^verbatim>\<open>initialize\<close> it
  calls \<^verbatim>\<open>sendMCPRequest(client, "initialized", {})\<close> and awaits that; after
  \<^verbatim>\<open>initialized\<close> it sets \<^verbatim>\<open>isReady\<close>. A rejection at either \<^verbatim>\<open>await\<close> is thrown.
\<close>

definition initializeMCPClient_resume ::
  "MCPClient \<Rightarrow> handshake \<Rightarrow> outcome \<Rightarrow> MCPClient \<times> handshake \<times> effect list" where
  "initializeMCPClient_resume client hs out =
     (case hs of
        AwaitInitialize rid \<Rightarrow>
          (case out of
             Rejected msg \<Rightarrow> (client, HandshakeFailed msg, [])
           | Resolved r \<Rightarrow>
               (case sendMCPRequest client ''initialized'' (JObj []) of
                  (client', Inl msg, effs) \<Rightarrow> (client', HandshakeFailed msg, effs)
                | (client', Inr rid', effs) \<Rightarrow> (client', AwaitInitialized rid', effs)))
      | AwaitInitialized rid \<Rightarrow>
          (case out of
             Rejected msg \<Rightarrow> (client, HandshakeFailed msg, [])
           | Resolved r \<Rightarrow> (client\<lparr>isReady := True\<rparr>, HandshakeDone, []))
      | HandshakeDone \<Rightarrow> (client, HandshakeDone, [])
      | HandshakeFailed msg \<Rightarrow> (client, HandshakeFailed msg, []))"

text \<open>
  The \<^verbatim>\<open>exit\<close> handler of \<^verbatim>\<open>setupProcessHandlers\<close>: \<^verbatim>\<open>client.isReady = false;
  client.process = null; this.scheduleReconnect(client)\<close>. The result is the client, the
  reconnection timer armed if any, and the calls of \<^verbatim>\<open>resolve\<close>, \<^verbatim>\<open>reject\<close> and
  \<^verbatim>\<open>clearTimeout\<close> it makes: none.
\<close>

definition onExit ::
  "Orchestrator \<Rightarrow> MCPClient \<Rightarrow> MCPClient \<times> reconnect_timer option \<times> effect list" where
  "onExit orch client =
     (let client' = client\<lparr>isReady := False, process := None\<rparr>
      in (client', scheduleReconnect orch client', []))"

text \<open>The \<^verbatim>\<open>error\<close> handler: \<^verbatim>\<open>client.isReady = false; this.scheduleReconnect(client)\<close>.\<close>

definition onError ::
  "Orchestrator \<Rightarrow> MCPClient \<Rightarrow> MCPClient \<times> reconnect_timer option \<times> effect list" where
  "onError orch client =
     (let client' = client\<lparr>isReady := False\<rparr>
      in (client', scheduleReconnect orch client', []))"


section \<open>Who calls scheduleReconnect (index.ts, startHealthChecks and setupProcessHandlers)\<close>

text \<open>
  The \<^verbatim>\<open>catch\<close> block of the health tick:
  \<^verbatim>\<open>client.isReady = false; this.scheduleReconnect(client)\<close>.
\<close>

definition healthCheckFailed ::
  "Orchestrator \<Rightarrow> MCPClient \<Rightarrow> MCPClient \<times> reconnect_timer option" where
  "healthCheckFailed orch client =
     (let client' = client\<lparr>isReady := False\<rparr>
      in (client', scheduleReconnect orch client'))"

text \<open>
  The body of the health tick for one client, up to its \<^verbatim>\<open>await\<close>: a client that is not
  ready throws at once, and so does a \<^verbatim>\<open>ping\<close> that \<^verbatim>\<open>sendMCPRequest\<close> rejects for want of a
  process; both run the \<^verbatim>\<open>catch\<close> block. Otherwise the \<^verbatim>\<open>ping\<close> is written and awaited (its
  later failure runs the same block).
\<close>

definition healthCheck_start ::
  "Orchestrator \<Rightarrow> MCPClient \<Rightarrow> MCPClient \<times> reconnect_timer option \<times> effect list" where
  "healthCheck_start orch client =
     (if \<not> isReady client
      then (case healthCheckFailed orch client of (c, t) \<Rightarrow> (c, t, []))
      else (case sendMCPRequest client ''ping'' (JObj []) of
              (client', Inl msg, effs) \<Rightarrow>
                (case healthCheckFailed orch client' of (c, t) \<Rightarrow> (c, t, effs))
            | (client', Inr rid, effs) \<Rightarrow> (client', None, effs)))"

text \<open>
  The reconnection timers of the orchestrator. \<^verbatim>\<open>scheduleReconnect\<close> keeps no record of the
  timers it has armed, the runtime does: \<open>r_armed\<close> holds the timers that are armed and
  have not fired, oldest first, each with the client its callback has captured;
  \<open>r_delays\<close> the delay of every timer armed so far; \<open>r_attempts\<close> counts the calls of
  \<^verbatim>\<open>connectToDockerMCP\<close> made by timer callbacks.
\<close>

record reconnects =
  r_orch :: Orchestrator
  r_armed :: "(MCPClient \<times> reconnect_timer) list"
  r_delays :: "nat list"
  r_attempts :: nat
  r_effects :: "effect list"

text \<open>
  What can happen: the process of a registered client exits or reports an error; the
  process that a failed connection attempt had spawned exits (its client is in no
  registry, its handlers are installed); the 30 s health interval fires; an awaited health \<^verbatim>\<open>ping\<close> fails; the
  armed timer number \<open>i\<close> fires and its connection attempt ends as given (\<open>Some c\<close>: it
  returned, \<open>c\<close> is registered; \<open>None\<close>: it threw).
\<close>

datatype reconnect_event =
    ProcessExits string
  | ProcessErrors string
  | OrphanExits MCPClient
  | HealthTick
  | PingFails string
  | TimerFires nat "MCPClient option"

definition arm :: "MCPClient \<Rightarrow> reconnect_timer option \<Rightarrow> reconnects \<Rightarrow> reconnects" where
  "arm client t s =
     (case t of
        None \<Rightarrow> s
      | Some tm \<Rightarrow> s\<lparr>r_armed := r_armed s @ [(client, tm)],
                      r_delays := r_delays s @ [rt_delay tm]\<rparr>)"

definition storeClient :: "string \<Rightarrow> MCPClient \<Rightarrow> reconnects \<Rightarrow> reconnects" where
  "storeClient nm client s =
     s\<lparr>r_orch := (r_orch s)\<lparr>mcpClients := mapSet (mcpClients (r_orch s)) nm client\<rparr>\<rparr>"

definition tickClient :: "reconnects \<Rightarrow> string \<Rightarrow> reconnects" where
  "tickClient s nm =
     (case mapGet (mcpClients (r_orch s)) nm of
        None \<Rightarrow> s
      | Some client \<Rightarrow>
          (case healthCheck_start (r_orch s) client of
             (client', t, effs) \<Rightarrow>
               arm client' t (storeClient nm client' (s\<lparr>r_effects := r_effects s @ effs\<rparr>))))"

fun reconnectStep :: "reconnects \<Rightarrow> reconnect_event \<Rightarrow> reconnects" where
  "reconnectStep s (ProcessExits nm) =
     (case mapGet (mcpClients (r_orch s)) nm of
        None \<Rightarrow> s
      | Some client \<Rightarrow>
          (case onExit (r_orch s) client of
             (client', t, effs) \<Rightarrow>
               arm client' t (storeClient nm client' (s\<lparr>r_effects := r_effects s @ effs\<rparr>))))"
| "reconnectStep s (ProcessErrors nm) =
     (case mapGet (mcpClients (r_orch s)) nm of
        None \<Rightarrow> s
      | Some client \<Rightarrow>
          (case onError (r_orch s) client of
             (client', t, effs) \<Rightarrow>
               arm client' t (storeClient nm client' (s\<lparr>r_effects := r_effects s @ effs\<rparr>))))"
| "reconnectStep s (OrphanExits client) =
     (case onExit (r_orch s) client of
        (client', t, effs) \<Rightarrow> arm client' t (s\<lparr>r_effects := r_effects s @ effs\<rparr>))"
| "reconnectStep s HealthTick = foldl tickClient s (map fst (mcpClients (r_orch s)))"
| "reconnectStep s (PingFails nm) =
     (case mapGet (mcpClients (r_orch s)) nm of
        None \<Rightarrow> s
      | Some client \<Rightarrow>
          (case healthCheckFailed (r_orch s) client of
             (client', t) \<Rightarrow> arm client' t (storeClient nm client' s)))"
| "reconnectStep s (TimerFires i outcome) =
     (if i < length (r_armed s)
      then (case r_armed s ! i of
              (client, tm) \<Rightarrow>
                (case reconnectCallback (r_orch s) client (rt_attempts tm) outcome of
                   (orch', nxt) \<Rightarrow>
                     arm client nxt
                       (s\<lparr>r_orch := orch',
                          r_armed := take i (r_armed s) @ drop (Suc i) (r_armed s),
                          r_attempts := r_attempts s + 1\<rparr>)))
      else s)"

definition reconnectRun :: "reconnects \<Rightarrow> reconnect_event list \<Rightarrow> reconnects" where
  "reconnectRun s evs = foldl reconnectStep s evs"

section \<open>One connection over time\<close>

text \<open>
  A client together with what the platform keeps for it: its live timers (request id to
  the message the callback rejects with), the slots of its promises, and the writes
  whose callback has not run yet. \<^verbatim>\<open>setTimeout\<close> adds a timer, \<^verbatim>\<open>clearTimeout\<close> removes it,
  and a timer fires at most once and only while it is live. The slot of a promise is
  fulfilled by the first call of its \<^verbatim>\<open>resolve\<close> or \<^verbatim>\<open>reject\<close>; a later call changes
  nothing. The callback of a write runs at most once.
\<close>

record world =
  wclient :: MCPClient
  wtimers :: "nat \<rightharpoonup> string"
  wslots :: "nat \<rightharpoonup> outcome"
  wwrites :: "nat set"

fun applyTimers :: "effect list \<Rightarrow> (nat \<rightharpoonup> string) \<Rightarrow> (nat \<rightharpoonup> string)" where
  "applyTimers [] ts = ts"
| "applyTimers (SetTimeout rid ms msg # effs) ts = applyTimers effs (ts(rid \<mapsto> msg))"
| "applyTimers (ClearTimeout rid # effs) ts = applyTimers effs (ts(rid := None))"
| "applyTimers (eff # effs) ts = applyTimers effs ts"

fun applySlots :: "effect list \<Rightarrow> (nat \<rightharpoonup> outcome) \<Rightarrow> (nat \<rightharpoonup> outcome)" where
  "applySlots [] ss = ss"
| "applySlots (Resolve rid v # effs) ss =
     applySlots effs (if ss rid = None then ss(rid \<mapsto> Resolved v) else ss)"
| "applySlots (Reject rid msg # effs) ss =
     applySlots effs (if ss rid = None then ss(rid \<mapsto> Rejected msg) else ss)"
| "applySlots (eff # effs) ss = applySlots effs ss"

text \<open>
  What can happen to a connection: the code calls \<^verbatim>\<open>sendMCPRequest\<close> (which makes a new
  promise, with an empty slot, and starts a write), a parsed message reaches
  \<^verbatim>\<open>handleMCPResponse\<close>, the timer of a request fires, the write of a request fails and
  its callback runs with the error.
\<close>

datatype event = Send string json | Arrived json | Fired nat | WriteFailed nat string

definition step :: "world \<Rightarrow> event \<Rightarrow> world \<times> effect list" where
  "step w ev =
     (case ev of
        Send method params \<Rightarrow>
          (case sendMCPRequest (wclient w) method params of
             (client', Inl msg, effs) \<Rightarrow> (w\<lparr>wclient := client'\<rparr>, effs)
           | (client', Inr rid, effs) \<Rightarrow>
               (\<lparr>wclient = client', wtimers = applyTimers effs (wtimers w),
                 wslots = (wslots w)(rid := None), wwrites = insert rid (wwrites w)\<rparr>, effs))
      | Arrived message \<Rightarrow>
          (case handleMCPResponse (wclient w) message of
             (client', effs) \<Rightarrow>
               (w\<lparr>wclient := client', wtimers := applyTimers effs (wtimers w),
                  wslots := applySlots effs (wslots w)\<rparr>, effs))
      | Fired rid \<Rightarrow>
          (case wtimers w rid of
             None \<Rightarrow> (w, [])
           | Some msg \<Rightarrow>
               (case onTimeout (wclient w) rid msg of
                  (client', effs) \<Rightarrow>
                    (w\<lparr>wclient := client', wtimers := (wtimers w)(rid := None),
                       wslots := applySlots effs (wslots w)\<rparr>, effs)))
      | WriteFailed rid err \<Rightarrow>
          (if rid \<in> wwrites w then
             (case onWriteError (wclient w) rid err of
                (client', effs) \<Rightarrow>
                  (w\<lparr>wclient := client', wtimers := applyTimers effs (wtimers w),
                     wslots := applySlots effs (wslots w),
                     wwrites := wwrites w - {rid}\<rparr>, effs))
           else (w, [])))"


text \<open>The effect is a call of \<^verbatim>\<open>resolve\<close> or \<^verbatim>\<open>reject\<close> for the request \<open>rid\<close>.\<close>

fun isSettle :: "nat \<Rightarrow> effect \<Rightarrow> bool" where
  "isSettle rid (Resolve r v) = (r = rid)"
| "isSettle rid (Reject r msg) = (r = rid)"
| "isSettle rid eff = False"

text \<open>
  The state \<^verbatim>\<open>sendMCPRequest\<close> keeps: the pending calls are exactly the calls with a live
  timer, each entry holds the promise and timer of its own key and its slot is empty, and
  no id in use is above the counter.
\<close>

definition consistent :: "world \<Rightarrow> bool" where
  "consistent w \<longleftrightarrow>
     dom (wtimers w) = dom (pendingRequests (wclient w))
     \<and> (\<forall>rid req. pendingRequests (wclient w) rid = Some req
           \<longrightarrow> promise req = rid \<and> timer req = rid \<and> rid \<le> requestId (wclient w)
               \<and> wslots w rid = None)
     \<and> (\<forall>rid out. wslots w rid = Some out \<longrightarrow> rid \<le> requestId (wclient w))
     \<and> (\<forall>rid. rid \<in> wwrites w \<longrightarrow> rid \<le> requestId (wclient w))"

text \<open>How many times \<^verbatim>\<open>resolve\<close> or \<^verbatim>\<open>reject\<close> is called for the request \<open>rid\<close>.\<close>

definition settles :: "nat \<Rightarrow> effect list \<Rightarrow> nat" where
  "settles rid effs = length (filter (isSettle rid) effs)"







text \<open>The call of \<^verbatim>\<open>resolve\<close> or \<^verbatim>\<open>reject\<close> that ends the promise of \<open>rid\<close> in this way.\<close>

fun settleEffect :: "nat \<Rightarrow> outcome \<Rightarrow> effect" where
  "settleEffect rid (Resolved v) = Resolve rid v"
| "settleEffect rid (Rejected msg) = Reject rid msg"


section \<open>Concrete endpoints used in the examples\<close>

definition alphaConfig :: MCPConfig where
  "alphaConfig =
     \<lparr>name = ''alpha'', capabilities = [],
      container = \<lparr>cname = ''alpha-box'', command = None, workdir = None\<rparr>,
      healthCheck = None\<rparr>"

definition liveProcess :: ChildProcess where
  "liveProcess = \<lparr>stdin = True\<rparr>"

definition emptyOrchestrator :: Orchestrator where
  "emptyOrchestrator = \<lparr>mcpClients = [], reconnectAttempts = Map.empty\<rparr>"

definition readyClient :: MCPClient where
  "readyClient = (newClient alphaConfig (Some liveProcess))\<lparr>isReady := True\<rparr>"

definition alphaOrchestrator :: Orchestrator where
  "alphaOrchestrator = \<lparr>mcpClients = [(''alpha'', readyClient)], reconnectAttempts = Map.empty\<rparr>"

definition saturatedClient :: MCPClient where
  "saturatedClient = readyClient\<lparr>requestId := 2 ^ 53\<rparr>"

text \<open>A backend that answers every call with an empty object, one millisecond later.\<close>

definition promptEnv :: env where
  "promptEnv = \<lparr>reply = (\<lambda>nm rid. Resolved (Some (JObj []))), elapsed = (\<lambda>i. 1)\<rparr>"







definition replyTo1 :: json where
  "replyTo1 = JObj [(''jsonrpc'', JStr ''2.0''), (''id'', JNum 1), (''result'', JObj [])]"

text \<open>
  A handshake on a fresh client: \<^verbatim>\<open>initialize\<close> is sent, the backend answers it, and
  \<^verbatim>\<open>initializeMCPClient\<close> goes on.
\<close>

definition handshakeSent :: MCPClient where
  "handshakeSent = fst (initializeMCPClient_start (newClient alphaConfig (Some liveProcess)))"

definition handshakeAnswered :: MCPClient where
  "handshakeAnswered = fst (handleMCPResponse handshakeSent replyTo1)"

definition handshakeResumed :: "MCPClient \<times> handshake \<times> effect list" where
  "handshakeResumed =
     initializeMCPClient_resume handshakeAnswered (AwaitInitialize 1) (Resolved (Some (JObj [])))"

text \<open>
  A stand-in for \<^verbatim>\<open>JSON.parse\<close> on the text of a string literal without escapes: the
  code units between the quotes, as an array of numbers; anything else throws.
\<close>

definition parseQuoted :: "codeunits \<Rightarrow> json option" where
  "parseQuoted s =
     (if 2 \<le> length s \<and> hd s = 0x22 \<and> last s = 0x22 \<and> 0x22 \<notin> set (butlast (tl s))
      then Some (JArr (map (\<lambda>u. JNum (int u)) (butlast (tl s))))
      else None)"


text \<open>
  An outage of the endpoint \<^verbatim>\<open>alpha\<close>, which was connected at start-up: its container stops,
  so its process exits, and every connection attempt fails in \<^verbatim>\<open>ensureContainerRunning\<close>,
  before a process is spawned. With the exit at time 0 and the health interval firing 20,
  50, 80, 110, 140 and 170 seconds later, the timers fire at 5, 15, 35, 40, 75, 80, 90,
  135, 140, 140, 150 and 170 seconds, always the oldest armed one.
\<close>

definition outageStart :: reconnects where
  "outageStart =
     \<lparr>r_orch = alphaOrchestrator\<lparr>reconnectAttempts := [''alpha'' \<mapsto> 0]\<rparr>,
      r_armed = [], r_delays = [], r_attempts = 0, r_effects = []\<rparr>"

definition outage :: "reconnect_event list" where
  "outage =
     [ProcessExits ''alpha'', TimerFires 0 None, TimerFires 0 None, HealthTick,
      TimerFires 0 None, TimerFires 0 None, HealthTick, TimerFires 0 None, HealthTick,
      TimerFires 0 None, TimerFires 0 None, HealthTick, TimerFires 0 None, HealthTick,
      TimerFires 0 None, TimerFires 0 None, TimerFires 0 None, HealthTick, TimerFires 0 None]"

text \<open>
  The states of that outage: \<^verbatim>\<open>alpha\<close> is registered with no process, the counter is \<open>n\<close>,
  the timers \<open>ts\<close> are armed, \<open>ds\<close> are the delays so far and \<open>k\<close> attempts were made.
\<close>

definition downClient :: MCPClient where
  "downClient = readyClient\<lparr>isReady := False, process := None\<rparr>"

definition outageState :: "nat \<Rightarrow> reconnect_timer list \<Rightarrow> nat list \<Rightarrow> nat \<Rightarrow> reconnects" where
  "outageState n ts ds k =
     \<lparr>r_orch = \<lparr>mcpClients = [(''alpha'', downClient)], reconnectAttempts = [''alpha'' \<mapsto> n]\<rparr>,
      r_armed = map (\<lambda>t. (downClient, t)) ts, r_delays = ds, r_attempts = k, r_effects = []\<rparr>"

section \<open>Correlation engine: what is written and which ids are used\<close>

lemma digitsOf_digit: "n < 10 \<Longrightarrow> digitsOf n = [digitChar n]"
  by (subst digitsOf.simps) simp

lemmas example_defs =
  readyClient_def newClient_def liveProcess_def alphaConfig_def hasStdin_def timeoutMs_def

lemmas stringify_defs =
  mkRequest_def quote_def escapeChar_def showInt_def digitsOf_digit digitChar_def

text \<open>
  Claim C4, at a health-check ping of the modular orchestrator. \<^verbatim>\<open>sendRequest\<close> writes the
  serialisation of \<^verbatim>\<open>{jsonrpc, id, method, params}\<close> with nothing after it, where
  \<^verbatim>\<open>sendMCPRequest\<close> writes the same serialisation followed by a newline.
\<close>

theorem sendRequest_ping_unterminated:
  \<open>snd (snd (sendRequest readyClient ''ping'' (JObj [])))
     = [SetTimeout 1 30000 ''RPC timeout for ping'',
        Write ''{"jsonrpc":"2.0","id":1,"method":"ping","params":{}}'']
   \<and> snd (snd (sendMCPRequest readyClient ''ping'' (JObj [])))
     = [SetTimeout 1 30000 ''Timeout for ping in alpha'',
        Write ''{"jsonrpc":"2.0","id":1,"method":"ping","params":{}}\<newline>'']\<close>
  by (simp add: sendRequest_def sendMCPRequest_def example_defs stringify_defs js_incr_def Let_def)

lemma sendMCPRequest_connected:
  assumes "hasStdin client"
  shows "sendMCPRequest client method params =
     (client\<lparr>requestId := js_incr (requestId client),
             pendingRequests := (pendingRequests client)
               (js_incr (requestId client) \<mapsto>
                 \<lparr>promise = js_incr (requestId client), timer = js_incr (requestId client)\<rparr>)\<rparr>,
      Inr (js_incr (requestId client)),
      [SetTimeout (js_incr (requestId client)) (timeoutMs client)
         (''Timeout for '' @ method @ '' in '' @ name (config client)),
       Write (stringify (mkRequest (js_incr (requestId client)) method params) @ [CHR 0x0A])])"
  using assms by (simp add: sendMCPRequest_def Let_def)

lemma sendMCPRequest_disconnected:
  assumes "\<not> hasStdin client"
  shows "sendMCPRequest client method params =
     (client, Inl (''MCP '' @ name (config client) @ '' not connected''), [])"
  using assms by (simp add: sendMCPRequest_def)

lemma sendAll_ids:
  assumes "hasStdin client" and "requestId client + length calls \<le> 2 ^ 53"
  shows "snd (sendAll client calls)
           = map Inr [requestId client + 1 ..< requestId client + length calls + 1]"
  using assms
proof (induction calls arbitrary: client)
  case Nil
  then show ?case by simp
next
  case (Cons call calls)
  obtain m p where call: "call = (m, p)" by (cases call)
  let ?c1 = "fst (sendMCPRequest client m p)"
  from Cons.prems have lt: "requestId client < 2 ^ 53" by simp
  then have inc: "js_incr (requestId client) = requestId client + 1"
    by (simp add: js_incr_def)
  have c1: "hasStdin ?c1" "requestId ?c1 = requestId client + 1"
    using Cons.prems(1) inc by (simp_all add: sendMCPRequest_connected hasStdin_def)
  have "requestId ?c1 + length calls \<le> 2 ^ 53"
    using Cons.prems(2) c1(2) by simp
  from Cons.IH [OF c1(1) this]
  have ih: "snd (sendAll ?c1 calls)
      = map Inr [requestId client + 1 + 1 ..< requestId client + 1 + length calls + 1]"
    using c1(2) by simp
  have "[requestId client + 1 ..< requestId client + length (call # calls) + 1]
      = (requestId client + 1) # [requestId client + 1 + 1 ..< requestId client + 1 + length calls + 1]"
    by (simp add: upt_rec)
  then show ?case
    using ih Cons.prems(1) inc call
    by (simp add: sendMCPRequest_connected split_beta)
qed

text \<open>
  Claim C8, as amended. On a client with a stdin, as long as the counter stays within
  \<open>2 ^ 53\<close>, successive calls of \<^verbatim>\<open>sendMCPRequest\<close> are given the ids that follow the counter
  one by one (so they increase strictly and none is used twice); a fresh client object,
  as made on connecting and on every reconnection, has its counter at zero and gives its
  first call the id 1.
\<close>

theorem sendMCPRequest_ids:
  assumes "hasStdin client" and "requestId client + length calls \<le> 2 ^ 53"
  shows "snd (sendAll client calls)
           = map Inr [requestId client + 1 ..< requestId client + length calls + 1]
       \<and> requestId (newClient cfg p) = 0
       \<and> fst (snd (sendMCPRequest (newClient cfg (Some liveProcess)) method params)) = Inr 1"
proof -
  have "fst (snd (sendMCPRequest (newClient cfg (Some liveProcess)) method params)) = Inr 1"
    by (simp add: sendMCPRequest_def newClient_def liveProcess_def hasStdin_def js_incr_def Let_def)
  moreover have "requestId (newClient cfg p) = 0"
    by (simp add: newClient_def)
  ultimately show ?thesis using sendAll_ids [OF assms] by simp
qed

theorem sendMCPRequest_ids_witness:
  "hasStdin readyClient
   \<and> requestId readyClient + length [(''initialize'', JNull), (''initialized'', JNull), (''ping'', JNull)] \<le> 2 ^ 53
   \<and> snd (sendAll readyClient [(''initialize'', JNull), (''initialized'', JNull), (''ping'', JNull)])
       = [Inr 1, Inr 2, Inr 3]"
proof -
  have h: "hasStdin readyClient"
    by (simp add: example_defs)
  have b: "requestId readyClient + length [(''initialize'', JNull), (''initialized'', JNull), (''ping'', JNull)] \<le> 2 ^ 53"
    by (simp add: example_defs)
  have r: "requestId readyClient = 0"
    by (simp add: example_defs)
  have u: "[Suc 0 ..< 4] = [1, 2, 3]"
    by (simp add: upt_rec)
  from sendMCPRequest_ids [OF h b]
  have "snd (sendAll readyClient [(''initialize'', JNull), (''initialized'', JNull), (''ping'', JNull)])
       = [Inr 1, Inr 2, Inr 3]"
    using r u by simp
  with h b show ?thesis by blast
qed

text \<open>
  At a counter of \<open>2 ^ 53\<close> the increment gives \<open>2 ^ 53\<close> again: two successive calls
  carry the same id.
\<close>

theorem requestId_reused_at_2_53:
  "fst (snd (sendMCPRequest saturatedClient ''ping'' (JObj []))) = Inr (2 ^ 53)
   \<and> fst (snd (sendMCPRequest (fst (sendMCPRequest saturatedClient ''ping'' (JObj [])))
                 ''tools/list'' (JObj []))) = Inr (2 ^ 53)"
  by (simp add: sendMCPRequest_def saturatedClient_def example_defs js_incr_def Let_def)

text \<open>
  The serialisation holds no newline, so what \<^verbatim>\<open>sendMCPRequest\<close> writes is one line ended
  by its newline, and what \<^verbatim>\<open>sendRequest\<close> writes has no newline at all, whatever the
  client, the method and the parameters.
\<close>

lemma digitChar_newline:
  assumes "d < 16"
  shows "digitChar d \<noteq> CHR 0x0A" and "CHR 0x0A \<noteq> digitChar d"
proof -
  have "digitChar d \<in> set ''0123456789abcdef''"
    unfolding digitChar_def by (rule nth_mem) (use assms in simp)
  then show "digitChar d \<noteq> CHR 0x0A" and "CHR 0x0A \<noteq> digitChar d"
    by auto
qed

lemma digitsOf_newline: "CHR 0x0A \<notin> set (digitsOf n)"
proof (induction n rule: digitsOf.induct)
  case (1 n)
  show ?case
  proof (cases "n < 10")
    case True
    then show ?thesis
      by (subst digitsOf.simps) (simp add: digitChar_newline)
  next
    case False
    with 1 show ?thesis
      by (subst digitsOf.simps) (simp add: digitChar_newline)
  qed
qed

lemma escapeChar_newline: "CHR 0x0A \<notin> set (escapeChar c)"
proof -
  have "(of_char c :: nat) div 16 < 16"
    using nat_of_char_less_256 [of c] by presburger
  then show ?thesis
    by (simp add: escapeChar_def digitChar_newline)
qed

lemma quote_newline: "CHR 0x0A \<notin> set (quote s)"
  by (simp add: quote_def escapeChar_newline)

lemma commaJoin_newline:
  assumes "\<And>x. x \<in> set xs \<Longrightarrow> CHR 0x0A \<notin> set x"
  shows "CHR 0x0A \<notin> set (commaJoin xs)"
  using assms by (induction xs rule: commaJoin.induct) auto

lemma stringify_newline: "CHR 0x0A \<notin> set (stringify j)"
proof (induction j)
  case JNull
  show ?case by simp
next
  case (JBool b)
  show ?case by simp
next
  case (JNum i)
  show ?case by (simp add: showInt_def digitsOf_newline)
next
  case (JStr s)
  show ?case by (simp add: quote_newline)
next
  case (JArr xs)
  have "CHR 0x0A \<notin> set (commaJoin (map stringify xs))"
    by (rule commaJoin_newline) (use JArr in auto)
  then show ?case by simp
next
  case (JObj kvs)
  have "CHR 0x0A \<notin> set (commaJoin (map (\<lambda>kv. quote (fst kv) @ '':'' @ stringify (snd kv)) kvs))"
  proof (rule commaJoin_newline)
    fix x
    assume "x \<in> set (map (\<lambda>kv. quote (fst kv) @ '':'' @ stringify (snd kv)) kvs)"
    then obtain k v where kv: "(k, v) \<in> set kvs" and x: "x = quote k @ '':'' @ stringify v"
      by auto
    from kv JObj have "CHR 0x0A \<notin> set (stringify v)"
      by (auto simp: snds.simps)
    with x show "CHR 0x0A \<notin> set x" by (simp add: quote_newline)
  qed
  then show ?case by simp
qed

lemma sendRequest_writes_no_newline:
  assumes "Write s \<in> set (snd (snd (sendRequest client mth prm)))"
  shows "CHR 0x0A \<notin> set s"
  using assms by (auto simp: sendRequest_def Let_def stringify_newline split: if_splits)

lemma sendMCPRequest_writes_one_line:
  assumes "Write s \<in> set (snd (snd (sendMCPRequest client mth prm)))"
  shows "\<exists>line. s = line @ [CHR 0x0A] \<and> CHR 0x0A \<notin> set line"
  using assms by (auto simp: sendMCPRequest_def Let_def stringify_newline split: if_splits)

section \<open>Fan-out executor: a step on a connection that is not available\<close>

text \<open>
  Claim C1, as amended. For a step whose named connection is not in the map or is not
  ready, \<^verbatim>\<open>executeTask\<close> is decided before any \<^verbatim>\<open>await\<close>: the result has status
  \<^verbatim>\<open>error\<close> and the message \<^verbatim>\<open>MCP not available\<close>, no client is changed and nothing is
  written, no timer set and no request registered on any connection.
\<close>

theorem executeTask_unavailable:
  assumes "mapGet (mcpClients orch) mcpName = None
         \<or> (\<exists>client. mapGet (mcpClients orch) mcpName = Some client \<and> \<not> isReady client)"
  shows "executeTask_start orch mcpName toolName params d =
           (orch,
            Inl \<lparr>stepId = mcpName @ ''_'' @ toolName, mcp = mcpName, tool = toolName,
                 status = ''error'', result = None, error = Some ''MCP not available'',
                 duration = d\<rparr>,
            [])"
  using assms by (auto simp: executeTask_start_def errorResult_def)

theorem executeTask_unavailable_witness:
  "mapGet (mcpClients emptyOrchestrator) ''ghost'' = None
   \<and> executeTask_start emptyOrchestrator ''ghost'' ''probe'' (JObj []) 0 =
       (emptyOrchestrator,
        Inl \<lparr>stepId = ''ghost_probe'', mcp = ''ghost'', tool = ''probe'',
             status = ''error'', result = None, error = Some ''MCP not available'',
             duration = 0\<rparr>,
        [])"
proof -
  have h: "mapGet (mcpClients emptyOrchestrator) ''ghost'' = None"
    by (simp add: emptyOrchestrator_def)
  then have "mapGet (mcpClients emptyOrchestrator) ''ghost'' = None
         \<or> (\<exists>client. mapGet (mcpClients emptyOrchestrator) ''ghost'' = Some client \<and> \<not> isReady client)"
    by blast
  from executeTask_unavailable [OF this, of "''probe''" "JObj []" 0] h
  show ?thesis by simp
qed

text \<open>The message of the code is not the one the specification names.\<close>

theorem executeTask_message_counterexample:
  "fst (snd (executeTask_start emptyOrchestrator ''ghost'' ''probe'' (JObj []) 0))
     = Inl (errorResult ''ghost'' ''probe'' ''MCP not available'' 0)
   \<and> error (errorResult ''ghost'' ''probe'' ''MCP not available'' 0)
       \<noteq> Some ''endpoint not available''"
  by (simp add: executeTask_start_def emptyOrchestrator_def errorResult_def)

section \<open>Pending calls\<close>






lemma settles_settleEffect [simp]:
  "settles rid [ClearTimeout r, settleEffect r out] = (if r = rid then 1 else 0)"
  by (cases out) (simp_all add: settles_def)

lemma applySlots_settleEffect [simp]:
  "applySlots [ClearTimeout r, settleEffect r out] ss = (if ss r = None then ss(r \<mapsto> out) else ss)"
  by (cases out) simp_all

















lemma consistent_newClient:
  "consistent \<lparr>wclient = newClient cfg p, wtimers = Map.empty, wslots = Map.empty, wwrites = {}\<rparr>"
  by (simp add: consistent_def newClient_def)


text \<open>
  The handler of the modular orchestrator changes the client as \<^verbatim>\<open>handleMCPResponse\<close> does
  (no call is ever pending under the id 0).
\<close>

lemma handleResponse_client:
  assumes "0 \<notin> dom (pendingRequests client)"
  shows "fst (handleResponse client message) = fst (handleMCPResponse client message)"
proof (cases "jget message ''id''")
  case None
  then show ?thesis
    by (simp add: handleResponse_def handleMCPResponse_def matchingId_def)
next
  case (Some v)
  show ?thesis
  proof (cases v)
    case (JNum n)
    show ?thesis
    proof (cases "0 < n")
      case True
      with Some JNum show ?thesis
        by (cases "pendingRequests client (nat n)")
          (auto simp: handleResponse_def handleMCPResponse_def matchingId_def)
    next
      case False
      with assms have "n < 0 \<or> pendingRequests client (nat n) = None"
        by (cases "n = 0") auto
      with Some JNum False show ?thesis
        by (auto simp: handleResponse_def handleMCPResponse_def matchingId_def)
    qed
  qed (use Some in \<open>simp_all add: handleResponse_def handleMCPResponse_def matchingId_def\<close>)
qed

lemma handleResponse_unmatched:
  assumes "jget message ''id'' = Some (JNum (int rid))" and "rid \<notin> dom (pendingRequests client)"
  shows "handleResponse client message = (client, [])"
proof -
  from assms(2) have "pendingRequests client rid = None" by auto
  with assms(1) show ?thesis by (simp add: handleResponse_def)
qed


lemma js_incr_small [simp]:
  "js_incr 0 = 1" "js_incr (Suc 0) = 2" "js_incr 2 = 3" "js_incr 3 = 4"
  by (simp_all add: js_incr_def)







section \<open>On-demand health check of a name that is not registered\<close>

text \<open>
  Claim C10, as amended. When \<^verbatim>\<open>mcp_name\<close> is a non-empty string that is the key of no
  client, \<^verbatim>\<open>checkHealth\<close> has nothing to check: the results are empty, no client is changed
  and nothing is sent.
\<close>

theorem checkHealth_unknown_name:
  assumes "nm \<noteq> []" and "mapGet (mcpClients orch) nm = None"
  shows "checkHealth e orch (Some (JStr nm)) = (orch, [], [])"
  using assms by (simp add: checkHealth_def mcpsToCheck_def)

theorem checkHealth_unknown_name_witness:
  "''ghost'' \<noteq> [] \<and> mapGet (mcpClients alphaOrchestrator) ''ghost'' = None
   \<and> checkHealth promptEnv alphaOrchestrator (Some (JStr ''ghost'')) = (alphaOrchestrator, [], [])"
proof -
  have a: "''ghost'' \<noteq> []" by simp
  have b: "mapGet (mcpClients alphaOrchestrator) ''ghost'' = None"
    by (simp add: alphaOrchestrator_def)
  from a b checkHealth_unknown_name [OF a b, of promptEnv] show ?thesis by blast
qed

text \<open>
  The empty string names no client either, but it is falsy: every client is probed and
  the results have an entry for each.
\<close>

theorem checkHealth_empty_name_counterexample:
  \<open>mapGet (mcpClients alphaOrchestrator) [] = None
   \<and> fst (snd (checkHealth promptEnv alphaOrchestrator (Some (JStr []))))
       = [\<lparr>h_name = Some ''alpha'', h_status = ''healthy'', response_time_ms = Some 1,
            h_error = None, h_container = Some ''alpha-box''\<rparr>]
   \<and> snd (snd (checkHealth promptEnv alphaOrchestrator (Some (JStr []))))
       = [(''alpha'', SetTimeout 1 30000 ''Timeout for ping in alpha''),
          (''alpha'', Write ''{"jsonrpc":"2.0","id":1,"method":"ping","params":{}}\<newline>'')]\<close>
  by (simp add: checkHealth_def mcpsToCheck_def alphaOrchestrator_def promptEnv_def
      sendMCPRequest_def example_defs stringify_defs js_incr_def settled_def Let_def)

section \<open>Process exit and shutdown\<close>













section \<open>The handshake\<close>

text \<open>
  Claim C3, on a fresh client whose backend has answered \<^verbatim>\<open>initialize\<close>. The handshake
  sends \<^verbatim>\<open>initialized\<close> as a request: it takes the id 2, a pending call with a timer is
  registered for it and the client is not ready. When the backend never answers (to it a
  notification needs no reply) the timeout rejects the call, the handshake fails and the
  client is never marked ready; only a reply to \<^verbatim>\<open>initialized\<close> makes it ready.
\<close>

theorem initialized_sent_as_request:
  \<open>snd handshakeResumed
     = (AwaitInitialized 2,
        [SetTimeout 2 30000 ''Timeout for initialized in alpha'',
         Write ''{"jsonrpc":"2.0","id":2,"method":"initialized","params":{}}\<newline>''])
   \<and> pendingRequests (fst handshakeResumed) 2 = Some \<lparr>promise = 2, timer = 2\<rparr>
   \<and> isReady (fst handshakeResumed) = False
   \<and> snd (onTimeout (fst handshakeResumed) 2 ''Timeout for initialized in alpha'')
       = [Reject 2 ''Timeout for initialized in alpha'']
   \<and> fst (snd (initializeMCPClient_resume
                 (fst (onTimeout (fst handshakeResumed) 2 ''Timeout for initialized in alpha''))
                 (AwaitInitialized 2) (Rejected ''Timeout for initialized in alpha'')))
       = HandshakeFailed ''Timeout for initialized in alpha''
   \<and> isReady (fst (initializeMCPClient_resume
                 (fst (onTimeout (fst handshakeResumed) 2 ''Timeout for initialized in alpha''))
                 (AwaitInitialized 2) (Rejected ''Timeout for initialized in alpha''))) = False
   \<and> isReady (fst (initializeMCPClient_resume (fst handshakeResumed)
                 (AwaitInitialized 2) (Resolved None))) = True\<close>
proof -
  have sent: "handshakeSent =
      (newClient alphaConfig (Some liveProcess))
        \<lparr>requestId := 1, pendingRequests := [1 \<mapsto> \<lparr>promise = 1, timer = 1\<rparr>]\<rparr>"
    by (simp add: handshakeSent_def initializeMCPClient_start_def sendMCPRequest_def
        example_defs js_incr_def Let_def)
  have m: "matchingId handshakeSent replyTo1 = Some 1"
    by (simp add: sent matchingId_def replyTo1_def)
  have answered: "handshakeAnswered =
      (newClient alphaConfig (Some liveProcess))\<lparr>requestId := 1, pendingRequests := Map.empty\<rparr>"
    by (simp add: handshakeAnswered_def handleMCPResponse_def m) (simp add: sent)
  have resumed: \<open>handshakeResumed =
      ((newClient alphaConfig (Some liveProcess))
         \<lparr>requestId := 2, pendingRequests := [2 \<mapsto> \<lparr>promise = 2, timer = 2\<rparr>]\<rparr>,
       AwaitInitialized 2,
       [SetTimeout 2 30000 ''Timeout for initialized in alpha'',
        Write ''{"jsonrpc":"2.0","id":2,"method":"initialized","params":{}}\<newline>''])\<close>
  proof -
    have inc: "js_incr (Suc 0) = 2"
      by (simp add: js_incr_def)
    show ?thesis
      by (simp add: handshakeResumed_def initializeMCPClient_resume_def answered
          sendMCPRequest_def example_defs stringify_defs inc Let_def)
  qed
  show ?thesis
    by (simp add: resumed onTimeout_def initializeMCPClient_resume_def newClient_def)
qed

section \<open>Reconnection with backoff\<close>

lemma getAttempts_upd:
  "getAttempts (orch\<lparr>reconnectAttempts := (reconnectAttempts orch)(nm \<mapsto> a)\<rparr>) nm = a"
  by (simp add: getAttempts_def)

text \<open>
  One call of \<^verbatim>\<open>scheduleReconnect\<close>: for a client without a process and a counter \<open>n\<close> below
  five it arms the delay the specification gives for \<open>n\<close>; from five on, and for a client
  that has a process, it arms nothing.
\<close>

lemma scheduleReconnect_armed:
  assumes "process client = None" and "getAttempts orch (name (config client)) = n" and "n < 5"
  shows "scheduleReconnect orch client = Some (ReconnectTimer (backoffDelay n) n)"
  using assms by (simp add: scheduleReconnect_def maxReconnectAttempts_def backoffDelay_def Let_def)

lemma scheduleReconnect_exhausted:
  assumes "getAttempts orch (name (config client)) \<ge> 5"
  shows "scheduleReconnect orch client = None"
  using assms by (simp add: scheduleReconnect_def maxReconnectAttempts_def Let_def)

lemma scheduleReconnect_connected:
  assumes "process client \<noteq> None"
  shows "scheduleReconnect orch client = None"
  using assms by (simp add: scheduleReconnect_def)

text \<open>The events of the outage, one at a time.\<close>

lemma downClient_fields [simp]: "name (config downClient) = ''alpha''" "process downClient = None" "isReady downClient = False"
  by (simp_all add: downClient_def example_defs)

lemma downClient_not_ready [simp]: "downClient\<lparr>isReady := False\<rparr> = downClient"
  by (simp add: downClient_def)

lemma scheduleReconnect_down:
  "n < 5 \<Longrightarrow> scheduleReconnect \<lparr>mcpClients = cs, reconnectAttempts = [''alpha'' \<mapsto> n]\<rparr> downClient
     = Some (ReconnectTimer (backoffDelay n) n)"
  "n \<ge> 5 \<Longrightarrow> scheduleReconnect \<lparr>mcpClients = cs, reconnectAttempts = [''alpha'' \<mapsto> n]\<rparr> downClient = None"
  by (simp_all add: scheduleReconnect_armed scheduleReconnect_exhausted getAttempts_def)

lemma exit_step: "reconnectStep outageStart (ProcessExits ''alpha'') = outageState 0 [ReconnectTimer 5000 0] [5000] 0"
  by (simp add: outageStart_def alphaOrchestrator_def outageState_def onExit_def arm_def storeClient_def Let_def
      downClient_def [symmetric] scheduleReconnect_down backoffDelay_def)

lemma tick_step:
  "reconnectStep (outageState n ts ds k) HealthTick =
     (if n < 5 then outageState n (ts @ [ReconnectTimer (backoffDelay n) n]) (ds @ [backoffDelay n]) k
      else outageState n ts ds k)"
  by (simp add: outageState_def tickClient_def healthCheck_start_def healthCheckFailed_def arm_def storeClient_def
      Let_def scheduleReconnect_down)

lemma fire_step:
  "reconnectStep (outageState n (ReconnectTimer d a # ts) ds k) (TimerFires 0 None) =
     (if a + 1 < 5 then outageState (a + 1) (ts @ [ReconnectTimer (backoffDelay (a + 1)) (a + 1)])
                          (ds @ [backoffDelay (a + 1)]) (k + 1)
      else outageState (a + 1) ts ds (k + 1))"
  by (simp add: outageState_def reconnectCallback_def arm_def Let_def scheduleReconnect_down)

lemma small_numerals:
  "3 = Suc (Suc (Suc 0))"
  "4 = Suc (Suc (Suc (Suc 0)))"
  "5 = Suc (Suc (Suc (Suc (Suc 0))))"
  "12 = Suc (Suc (Suc (Suc (Suc (Suc (Suc (Suc (Suc (Suc (Suc (Suc 0)))))))))))"
  by simp_all

lemma outage_run:
  "reconnectRun outageStart outage =
     outageState 5 [] [5000, 10000, 20000, 20000, 40000, 40000, 40000, 60000, 60000, 60000, 60000, 60000] 12"
  by (simp add: reconnectRun_def outage_def exit_step tick_step fire_step backoffDelay_def
      del: reconnectStep.simps) (simp only: small_numerals)

lemma outage_prefix:
  "reconnectRun outageStart (take 6 outage) =
     outageState 3 [ReconnectTimer 40000 3, ReconnectTimer 40000 3] [5000, 10000, 20000, 20000, 40000, 40000] 4"
  by (simp add: reconnectRun_def outage_def exit_step tick_step fire_step backoffDelay_def
      del: reconnectStep.simps) (simp only: small_numerals)

text \<open>A connection attempt that succeeds registers the fresh client and stores zero.\<close>

lemma reconnectCallback_success:
  "getAttempts (fst (reconnectCallback orch client a (Some fresh))) (name (config client)) = 0
   \<and> mapGet (mcpClients (fst (reconnectCallback orch client a (Some fresh)))) (name (config client))
       = Some fresh
   \<and> snd (reconnectCallback orch client a (Some fresh)) = None"
proof -
  have "mapGet (mapSet kvs k v) k = Some v" for kvs :: "(string \<times> MCPClient) list" and k v
    by (induction kvs) auto
  then show ?thesis
    by (simp add: reconnectCallback_def Let_def getAttempts_def)
qed

text \<open>
  The callback writes the \<^verbatim>\<open>attempts\<close> it captured when it was armed, plus one, whatever the
  counter has become since.
\<close>

lemma reconnectCallback_stale:
  "reconnectCallback
     \<lparr>mcpClients = [(''alpha'', downClient)], reconnectAttempts = [''alpha'' \<mapsto> 5]\<rparr>
     downClient 2 None
   = (\<lparr>mcpClients = [(''alpha'', downClient)], reconnectAttempts = [''alpha'' \<mapsto> 3]\<rparr>,
      Some (ReconnectTimer 40000 3))"
  by (simp add: reconnectCallback_def Let_def scheduleReconnect_down backoffDelay_def)

text \<open>
  Claim C5, at an outage of one endpoint that lasts longer than the health interval. The
  process of \<^verbatim>\<open>alpha\<close> exits and every connection attempt fails. The exit arms the first
  timer; each timer that fires makes an attempt and arms the next one; and each health
  tick arms one more for the same endpoint, because the guard of \<^verbatim>\<open>scheduleReconnect\<close>
  looks at \<^verbatim>\<open>client.process\<close>, which is null for the whole wait. After the first tick two
  timers are armed at once: the attempts 2 and 3 both come 20000 ms after their timer was
  armed, and by the end twelve attempts were made, all failed, with the delays below,
  where the specification has five attempts with the delays 5000, 10000, 20000, 40000
  and 60000.
\<close>

theorem reconnect_timers_pile_up:
  "r_delays (reconnectRun outageStart outage)
     = [5000, 10000, 20000, 20000, 40000, 40000, 40000, 60000, 60000, 60000, 60000, 60000]
   \<and> r_attempts (reconnectRun outageStart outage) = 12
   \<and> r_armed (reconnectRun outageStart outage) = []
   \<and> getAttempts (r_orch (reconnectRun outageStart outage)) ''alpha'' = 5
   \<and> r_delays (reconnectRun outageStart (take 6 outage))
       = [5000, 10000, 20000, 20000, 40000, 40000]
   \<and> r_attempts (reconnectRun outageStart (take 6 outage)) = 4
   \<and> map snd (r_armed (reconnectRun outageStart (take 6 outage)))
       = [ReconnectTimer 40000 3, ReconnectTimer 40000 3]
   \<and> map backoffDelay [0 ..< 5] = [5000, 10000, 20000, 40000, 60000]"
proof -
  have "map backoffDelay [0 ..< 5] = [5000, 10000, 20000, 40000, 60000]"
    by (simp add: upt_rec backoffDelay_def)
  then show ?thesis
    unfolding outage_run outage_prefix
    by (simp add: outageState_def getAttempts_def comp_def)
qed


section \<open>Frame reader: chunk boundaries\<close>

lemma splitNewline_nonempty: "splitNewline s \<noteq> []"
  by (induction s) auto

lemma splitNewline_append:
  "splitNewline (s @ t) = butlast (splitNewline s) @ splitNewline (last (splitNewline s) @ t)"
proof (induction s)
  case Nil
  show ?case by simp
next
  case (Cons c s)
  show ?case
  proof (cases "c = 10")
    case True
    with Cons show ?thesis by (simp add: splitNewline_nonempty)
  next
    case False
    obtain h r where S: "splitNewline s = h # r"
      using splitNewline_nonempty [of s] by (cases "splitNewline s") auto
    show ?thesis
    proof (cases r)
      case Nil
      with S Cons False show ?thesis by simp
    next
      case (Cons r0 rs)
      with S Cons.IH False show ?thesis by simp
    qed
  qed
qed

lemma last_splitNewline: "10 \<notin> set (last (splitNewline s))"
proof (induction s)
  case Nil
  show ?case by simp
next
  case (Cons c s)
  obtain h r where S: "splitNewline s = h # r"
    using splitNewline_nonempty [of s] by (cases "splitNewline s") auto
  with Cons show ?case by (cases r) auto
qed

lemma splitNewline_line:
  assumes "10 \<notin> set s"
  shows "splitNewline s = [s]"
  using assms by (induction s) auto

lemma handleMCPResponse_buffer:
  "handleMCPResponse (client\<lparr>messageBuffer := b\<rparr>) message =
     ((fst (handleMCPResponse client message))\<lparr>messageBuffer := b\<rparr>,
      snd (handleMCPResponse client message))"
proof -
  have m: "matchingId (client\<lparr>messageBuffer := b\<rparr>) message = matchingId client message"
    by (simp add: matchingId_def split: option.splits json.splits)
  show ?thesis
  proof (cases "matchingId client message")
    case None
    then show ?thesis by (simp add: handleMCPResponse_def m)
  next
    case (Some rid)
    then show ?thesis
      by (cases "pendingRequests client rid") (simp_all add: handleMCPResponse_def m)
  qed
qed

lemma handleLines_buffer:
  "handleLines parse (client\<lparr>messageBuffer := b\<rparr>) lines =
     ((fst (handleLines parse client lines))\<lparr>messageBuffer := b\<rparr>,
      snd (handleLines parse client lines))"
proof (induction lines arbitrary: client)
  case Nil
  show ?case by simp
next
  case (Cons line lines)
  show ?case
  proof (cases "trim line = []")
    case True
    with Cons show ?thesis by simp
  next
    case False
    show ?thesis
    proof (cases "parse (trim line)")
      case None
      with False Cons show ?thesis by simp
    next
      case (Some message)
      with False show ?thesis
        by (simp add: handleMCPResponse_buffer Cons.IH split_beta)
    qed
  qed
qed

lemma handleLines_append:
  "handleLines parse client (xs @ ys) =
     (case handleLines parse client xs of
        (client1, msgs1, effs1) \<Rightarrow>
          (case handleLines parse client1 ys of
             (client2, msgs2, effs2) \<Rightarrow> (client2, msgs1 @ msgs2, effs1 @ effs2)))"
proof (induction xs arbitrary: client)
  case Nil
  show ?case by (simp add: split_beta)
next
  case (Cons line lines)
  show ?case
  proof (cases "trim line = []")
    case True
    with Cons show ?thesis by simp
  next
    case False
    show ?thesis
    proof (cases "parse (trim line)")
      case None
      with False Cons show ?thesis by simp
    next
      case (Some message)
      with False show ?thesis
        by (simp add: Cons.IH split_beta)
    qed
  qed
qed

lemma handleLines_frames:
  "fst (snd (handleLines parse client lines)) = framesOf parse lines"
proof (induction lines arbitrary: client)
  case Nil
  show ?case by (simp add: framesOf_def List.map_filter_simps)
next
  case (Cons line lines)
  show ?case
  proof (cases "trim line = []")
    case True
    with Cons show ?thesis by (simp add: framesOf_def)
  next
    case False
    show ?thesis
    proof (cases "parse (trim line)")
      case None
      with False Cons [of client] show ?thesis
        by (simp add: framesOf_def List.map_filter_simps)
    next
      case (Some message)
      with False Cons [of "fst (handleMCPResponse client message)"] show ?thesis
        by (simp add: framesOf_def List.map_filter_simps split_beta)
    qed
  qed
qed

lemma processMessages_buffer:
  "messageBuffer (fst (processMessages parse client)) = last (splitNewline (messageBuffer client))"
  by (simp add: processMessages_def handleLines_buffer Let_def)

lemma processMessages_twice:
  "(case processMessages parse client of
      (client1, msgs1, effs1) \<Rightarrow>
        (case processMessages parse
                (client1\<lparr>messageBuffer := messageBuffer client1 @ t\<rparr>) of
           (client2, msgs2, effs2) \<Rightarrow> (client2, msgs1 @ msgs2, effs1 @ effs2)))
   = processMessages parse (client\<lparr>messageBuffer := messageBuffer client @ t\<rparr>)"
proof -
  let ?L = "splitNewline (messageBuffer client)"
  let ?L2 = "splitNewline (last ?L @ t)"
  let ?h = "handleLines parse client (butlast ?L)"
  have sp: "splitNewline (messageBuffer client @ t) = butlast ?L @ ?L2"
    by (rule splitNewline_append)
  have la: "last (butlast ?L @ ?L2) = last ?L2"
    by (simp add: splitNewline_nonempty)
  have bu: "butlast (butlast ?L @ ?L2) = butlast ?L @ butlast ?L2"
    by (simp add: butlast_append splitNewline_nonempty)
  have first: "processMessages parse client = ((fst ?h)\<lparr>messageBuffer := last ?L\<rparr>, snd ?h)"
    by (simp add: processMessages_def handleLines_buffer Let_def)
  have second: "processMessages parse
        ((fst ?h)\<lparr>messageBuffer := last ?L @ t\<rparr>)
      = ((fst (handleLines parse (fst ?h) (butlast ?L2)))\<lparr>messageBuffer := last ?L2\<rparr>,
         snd (handleLines parse (fst ?h) (butlast ?L2)))"
    by (simp add: processMessages_def handleLines_buffer Let_def)
  have whole: "processMessages parse (client\<lparr>messageBuffer := messageBuffer client @ t\<rparr>)
      = ((fst (handleLines parse (fst ?h) (butlast ?L2)))\<lparr>messageBuffer := last ?L2\<rparr>,
         fst (snd ?h) @ fst (snd (handleLines parse (fst ?h) (butlast ?L2))),
         snd (snd ?h) @ snd (snd (handleLines parse (fst ?h) (butlast ?L2))))"
    by (simp add: processMessages_def Let_def sp la bu handleLines_buffer handleLines_append
        split_beta)
  show ?thesis
    by (simp add: first second whole split_beta)
qed

lemma onStdoutChunks_whole:
  assumes "10 \<notin> set (messageBuffer client)"
  shows "onStdoutChunks parse toString client chunks =
           processMessages parse
             (client\<lparr>messageBuffer := messageBuffer client @ concat (map toString chunks)\<rparr>)"
  using assms
proof (induction chunks arbitrary: client)
  case Nil
  then show ?case
    by (simp add: processMessages_def splitNewline_line)
next
  case (Cons data chunks)
  let ?c0 = "client\<lparr>messageBuffer := messageBuffer client @ toString data\<rparr>"
  let ?c1 = "fst (processMessages parse ?c0)"
  have "10 \<notin> set (messageBuffer ?c1)"
    by (simp add: processMessages_buffer last_splitNewline)
  note ih = Cons.IH [OF this]
  have "onStdoutChunks parse toString client (data # chunks) =
      (case processMessages parse ?c0 of
        (client1, msgs1, effs1) \<Rightarrow>
          (case processMessages parse
                  (client1\<lparr>messageBuffer := messageBuffer client1 @ concat (map toString chunks)\<rparr>) of
             (client2, msgs2, effs2) \<Rightarrow> (client2, msgs1 @ msgs2, effs1 @ effs2)))"
    by (simp add: onStdoutData_def ih split_beta)
  also have "\<dots> = processMessages parse
      (?c0\<lparr>messageBuffer := messageBuffer ?c0 @ concat (map toString chunks)\<rparr>)"
    by (rule processMessages_twice)
  finally show ?case by simp
qed

lemma frame_reader_text_chunking:
  assumes "10 \<notin> set (messageBuffer client)"
    and "concat (map toString chunks1) = concat (map toString chunks2)"
  shows "onStdoutChunks parse toString client chunks1
           = onStdoutChunks parse toString client chunks2"
    and "fst (snd (onStdoutChunks parse toString client chunks1))
           = framesOf parse
               (butlast (splitNewline (messageBuffer client @ concat (map toString chunks1))))"
    and "messageBuffer (fst (onStdoutChunks parse toString client chunks1))
           = last (splitNewline (messageBuffer client @ concat (map toString chunks1)))"
proof -
  show "onStdoutChunks parse toString client chunks1
           = onStdoutChunks parse toString client chunks2"
    using assms by (simp add: onStdoutChunks_whole)
  show "fst (snd (onStdoutChunks parse toString client chunks1))
           = framesOf parse
               (butlast (splitNewline (messageBuffer client @ concat (map toString chunks1))))"
    using assms(1)
    by (simp add: onStdoutChunks_whole processMessages_def handleLines_frames Let_def)
  show "messageBuffer (fst (onStdoutChunks parse toString client chunks1))
           = last (splitNewline (messageBuffer client @ concat (map toString chunks1)))"
    using assms(1) by (simp add: onStdoutChunks_whole processMessages_buffer)
qed

lemma Buffer_toString_whole:
  "Buffer_toString [0x22, 0xC3, 0xA9, 0x22, 0x0A] = [0x22, 0xE9, 0x22, 0x0A]"
  by (simp add: Buffer_toString_def firstByte_def utf8Start_def utf16_def)

lemma Buffer_toString_halves:
  "Buffer_toString [0x22, 0xC3] = [0x22, 0xFFFD]"
  "Buffer_toString [0xA9, 0x22, 0x0A] = [0xFFFD, 0x22, 0x0A]"
  by (simp_all add: Buffer_toString_def firstByte_def utf8Start_def utf16_def)

text \<open>
  Claim C7, at a reply whose text holds the character U+00E9 (the bytes C3 A9 in UTF-8)
  with a chunk boundary between its two bytes. The same bytes give the line
  \<^verbatim>\<open>"\<close>, U+00E9, \<^verbatim>\<open>"\<close> when they arrive as one chunk and the line \<^verbatim>\<open>"\<close>, U+FFFD, U+FFFD,
  \<^verbatim>\<open>"\<close> when they arrive as two, since each chunk is decoded on its own before it is
  appended to the buffer: the messages parsed from them differ.
\<close>

theorem frame_reader_split_character:
  "Buffer_toString ([0x22, 0xC3] @ [0xA9, 0x22, 0x0A]) = [0x22, 0xE9, 0x22, 0x0A]
   \<and> Buffer_toString [0x22, 0xC3] @ Buffer_toString [0xA9, 0x22, 0x0A]
       = [0x22, 0xFFFD, 0xFFFD, 0x22, 0x0A]
   \<and> fst (snd (onStdoutChunks parseQuoted Buffer_toString readyClient
                 [[0x22, 0xC3] @ [0xA9, 0x22, 0x0A]]))
       = [JArr [JNum 0xE9]]
   \<and> fst (snd (onStdoutChunks parseQuoted Buffer_toString readyClient
                 [[0x22, 0xC3], [0xA9, 0x22, 0x0A]]))
       = [JArr [JNum 0xFFFD, JNum 0xFFFD]]"
proof -
  have buf: "messageBuffer readyClient = []"
    by (simp add: example_defs)
  have nl: "10 \<notin> set (messageBuffer readyClient)"
    by (simp add: buf)
  have t: "trim [0x22, 0xE9, 0x22] = [0x22, 0xE9, 0x22]"
    "trim [0x22, 0xFFFD, 0xFFFD, 0x22] = [0x22, 0xFFFD, 0xFFFD, 0x22]"
    by (simp_all add: trim_def isWhiteSpace_def)
  have one: "fst (snd (onStdoutChunks parseQuoted Buffer_toString readyClient
                 [[0x22, 0xC3] @ [0xA9, 0x22, 0x0A]]))
       = [JArr [JNum 0xE9]]"
  proof -
    have "fst (snd (onStdoutChunks parseQuoted Buffer_toString readyClient
                 [[0x22, 0xC3] @ [0xA9, 0x22, 0x0A]]))
       = framesOf parseQuoted (butlast (splitNewline (messageBuffer readyClient
            @ concat (map Buffer_toString [[0x22, 0xC3] @ [0xA9, 0x22, 0x0A]]))))"
      by (rule frame_reader_text_chunking(2) [OF nl refl])
    also have "\<dots> = [JArr [JNum 0xE9]]"
      using Buffer_toString_whole
      by (simp add: buf framesOf_def t parseQuoted_def List.map_filter_simps)
    finally show ?thesis .
  qed
  have two: "fst (snd (onStdoutChunks parseQuoted Buffer_toString readyClient
                 [[0x22, 0xC3], [0xA9, 0x22, 0x0A]]))
       = [JArr [JNum 0xFFFD, JNum 0xFFFD]]"
  proof -
    have "fst (snd (onStdoutChunks parseQuoted Buffer_toString readyClient
                 [[0x22, 0xC3], [0xA9, 0x22, 0x0A]]))
       = framesOf parseQuoted (butlast (splitNewline (messageBuffer readyClient
            @ concat (map Buffer_toString [[0x22, 0xC3], [0xA9, 0x22, 0x0A]]))))"
      by (rule frame_reader_text_chunking(2) [OF nl refl])
    also have "\<dots> = [JArr [JNum 0xFFFD, JNum 0xFFFD]]"
      by (simp add: buf Buffer_toString_halves framesOf_def t parseQuoted_def
          List.map_filter_simps)
    finally show ?thesis .
  qed
  from one two Buffer_toString_whole Buffer_toString_halves show ?thesis by simp
qed

section \<open>Fan-out executor: one result per step, in the order of the plan\<close>






text \<open>The parallel branch.\<close>

lemma startAll_length:
  "length (fst (snd (startAll e orch k steps))) = length steps"
  by (induction steps arbitrary: orch k) (simp_all add: split_beta)








end
